theory Spec2Isabelle
  imports Complex_Main "HOL-Library.Sublist" "HOL-Library.Product_Lexorder"
begin

section \<open>Match statistics of pkg/storage/stats.go\<close>

text \<open>
  The development embeds \<^verbatim>\<open>StatsFromGameAndEvents\<close> (stats.go, lines 284-381), the
  reducer that folds a stored game, its events and its per-user rows into a
  \<^verbatim>\<open>GameStatistics\<close> value, and the two teammate rankings (lines 623-661).

  Go integers are modelled as \<^typ>\<open>int\<close>. The declarations of the row types are not
  among the sources, so no width is known for a time stamp; the difference of two
  non-negative stamps of one signed type stays in that type, and the counters are Go
  \<^verbatim>\<open>int\<close> values that grow by one per event. A panic of the Go code is the left
  summand of the result.
\<close>

subsection \<open>Constants of the packages game and capture\<close>

text \<open>
  Modelled from the spec: package \<^verbatim>\<open>game\<close> (apart from its regions) and package
  \<^verbatim>\<open>capture\<close> are not among the sources. The spec lists eight win conditions, says
  that the codes 0, 1 and 6 are the three Humans ones, that 2, 3, 4 and 5 are the four
  Impostor ones, and that Unknown lies outside 0-6. A \<^verbatim>\<open>game.GameResult\<close> is an integer;
  the reducer names the four Impostor conditions and Unknown only. Which of the codes 2-5
  is which of the four does not matter to it; Unknown is the eighth value.
\<close>

type_synonym GameResult = int

definition ImpostorByVote :: GameResult where "ImpostorByVote = 2"
definition ImpostorByKill :: GameResult where "ImpostorByKill = 3"
definition ImpostorBySabotage :: GameResult where "ImpostorBySabotage = 4"
definition ImpostorDisconnect :: GameResult where "ImpostorDisconnect = 5"
definition Unknown :: GameResult where "Unknown = 7"

text \<open>Modelled from the spec: the two roles of \<^verbatim>\<open>game.GameRole\<close>.\<close>

datatype GameRole = CrewmateRole | ImposterRole

text \<open>
  Modelled from the spec: the phases \<^verbatim>\<open>game.TASKS\<close> and \<^verbatim>\<open>game.DISCUSS\<close>, two
  distinct codes.
\<close>

definition TASKS :: int where "TASKS = 1"
definition DISCUSS :: int where "DISCUSS = 2"

text \<open>
  Modelled from the spec: the event kinds \<^verbatim>\<open>capture.State\<close> (phase-state) and
  \<^verbatim>\<open>capture.Player\<close> (player-action), two distinct codes.
\<close>

definition capture_State :: int where "capture_State = 2"
definition capture_Player :: int where "capture_Player = 3"

text \<open>
  Modelled from the spec: the player actions \<^verbatim>\<open>game.DIED\<close>, \<^verbatim>\<open>game.EXILED\<close> and
  \<^verbatim>\<open>game.DISCONNECTED\<close>, three distinct codes among others.
\<close>

definition DIED :: int where "DIED = 2"
definition DISCONNECTED :: int where "DISCONNECTED = 5"
definition EXILED :: int where "EXILED = 6"

text \<open>
  Modelled from the spec: \<^verbatim>\<open>game.Player\<close>, the record a player-action payload decodes
  to. The reducer reads its action and its name only.
\<close>

record Player =
  Action :: int
  Name :: string

subsection \<open>Rows read from the store\<close>

text \<open>
  Modelled from the spec: the declarations of \<^verbatim>\<open>PostgresGame\<close>,
  \<^verbatim>\<open>PostgresGameEvent\<close> and \<^verbatim>\<open>PostgresUserGame\<close> are not among the sources. The
  field names of the first two are those of the literals in types\_test.go (the game of
  an event is \<open>EventGameID\<close> here); of the third only the two fields the reducer reads
  are kept. An absent user of an event is \<^const>\<open>None\<close>. The slices the reducer is
  given hold pointers to such rows; the game itself may be nil, which is \<^const>\<open>None\<close>.
\<close>

record PostgresGame =
  GameID :: int
  GuildID :: int
  ConnectCode :: string
  StartTime :: int
  WinType :: int
  EndTime :: int

record PostgresGameEvent =
  EventID :: int
  UserID :: "int option"
  EventGameID :: int
  EventTime :: int
  EventType :: int
  Payload :: string

record PostgresUserGame =
  PlayerName :: string
  PlayerWon :: bool

subsection \<open>The statistics\<close>

datatype SimpleEventType = Tasks | Discuss | PlayerDeath | PlayerDisconnect | PlayerExiled

text \<open>
  A \<^verbatim>\<open>time.Duration\<close> is a number of nanoseconds; \<^verbatim>\<open>time.Second\<close> is 10^9 of them.
  A \<^verbatim>\<open>time.Time\<close> is either the zero value \<^verbatim>\<open>time.Time{}\<close> or the result of
  \<^verbatim>\<open>time.Unix(sec, 0)\<close>.
\<close>

type_synonym Duration = int

definition time_Second :: Duration where "time_Second = 1000000000"

datatype Time = Time_zero | Time_Unix int

record SimpleEvent =
  EventType :: SimpleEventType
  EventTimeOffset :: Duration
  Data :: string

record GameStatistics =
  GameStartTime :: Time
  GameEndTime :: Time
  GameDuration :: Duration
  WinType :: GameResult
  WinRole :: GameRole
  WinPlayerNames :: "string list"
  LosePlayerNames :: "string list"
  NumMeetings :: int
  NumDeaths :: int
  NumVotedOff :: int
  NumDisconnects :: int
  Events :: "SimpleEvent list"

text \<open>The only panic of the reducer: reading a field through a nil pointer.\<close>

datatype go_panic = NilPointerDereference

subsection \<open>The reducer\<close>

text \<open>\<^verbatim>\<open>fmt.Sprintf("%d", n)\<close>: the decimal digits of an integer, after its sign.\<close>

fun decimal :: "nat \<Rightarrow> string" where
  "decimal n =
     (if n < 10 then [''0123456789'' ! n]
      else decimal (n div 10) @ [''0123456789'' ! (n mod 10)])"

definition Sprintf_d :: "int \<Rightarrow> string" where
  "Sprintf_d i = (if i < 0 then CHR ''-'' # decimal (nat (- i)) else decimal (nat i))"

text \<open>Lines 21-22.\<close>

definition DiscussCode :: string where "DiscussCode = Sprintf_d DISCUSS"
definition TasksCode :: string where "TasksCode = Sprintf_d TASKS"

text \<open>Lines 285-296: the initial value. The two counters the literal leaves out are 0.\<close>

definition stats_init :: GameStatistics where
  "stats_init =
     \<lparr>GameStartTime = Time_zero, GameEndTime = Time_zero, GameDuration = 0,
      GameStatistics.WinType = Unknown, WinRole = CrewmateRole,
      WinPlayerNames = [], LosePlayerNames = [],
      NumMeetings = 0, NumDeaths = 0, NumVotedOff = 0, NumDisconnects = 0,
      Events = []\<rparr>"

text \<open>Lines 298-303: the fields copied from the game, when there is one.\<close>

definition stats_game :: "PostgresGame option \<Rightarrow> GameStatistics \<Rightarrow> GameStatistics" where
  "stats_game pgame stats =
     (case pgame of
        None \<Rightarrow> stats
      | Some g \<Rightarrow>
          stats\<lparr>GameStartTime := Time_Unix (StartTime g),
                GameEndTime := Time_Unix (EndTime g),
                GameDuration := time_Second * (EndTime g - StartTime g),
                GameStatistics.WinType := PostgresGame.WinType g\<rparr>)"

text \<open>Lines 305-307: the winning role.\<close>

definition stats_role :: "GameStatistics \<Rightarrow> GameStatistics" where
  "stats_role stats =
     (if GameStatistics.WinType stats = ImpostorDisconnect
         \<or> GameStatistics.WinType stats = ImpostorBySabotage
         \<or> GameStatistics.WinType stats = ImpostorByVote
         \<or> GameStatistics.WinType stats = ImpostorByKill
      then stats\<lparr>WinRole := ImposterRole\<rparr> else stats)"

text \<open>Lines 309-315: the loop over the user rows.\<close>

fun users_loop :: "GameStatistics \<Rightarrow> PostgresUserGame list \<Rightarrow> GameStatistics" where
  "users_loop stats [] = stats"
| "users_loop stats (v # vs) =
     users_loop
       (if PlayerWon v
        then stats\<lparr>WinPlayerNames := WinPlayerNames stats @ [PlayerName v]\<rparr>
        else stats\<lparr>LosePlayerNames := LosePlayerNames stats @ [PlayerName v]\<rparr>) vs"

text \<open>The statistics as they stand at line 317, before the events are looked at.\<close>

definition stats_before_events ::
  "PostgresGame option \<Rightarrow> PostgresUserGame list \<Rightarrow> GameStatistics" where
  "stats_before_events pgame users = users_loop (stats_role (stats_game pgame stats_init)) users"

text \<open>
  \<^verbatim>\<open>time.Second * time.Duration(v.EventTime - pgame.StartTime)\<close>: the expression reads
  \<^verbatim>\<open>pgame.StartTime\<close> with no nil check, so it panics when there is no game.
\<close>

definition event_offset :: "PostgresGame option \<Rightarrow> PostgresGameEvent \<Rightarrow> go_panic + Duration" where
  "event_offset pgame v =
     (case pgame of
        None \<Rightarrow> Inl NilPointerDereference
      | Some g \<Rightarrow> Inr (time_Second * (EventTime v - StartTime g)))"

text \<open>\<^verbatim>\<open>stats.Events = append(stats.Events, SimpleEvent{...})\<close>.\<close>

definition append_event ::
  "PostgresGame option \<Rightarrow> PostgresGameEvent \<Rightarrow> SimpleEventType \<Rightarrow> string \<Rightarrow>
   GameStatistics \<Rightarrow> go_panic + GameStatistics" where
  "append_event pgame v ty d stats =
     (case event_offset pgame v of
        Inl e \<Rightarrow> Inl e
      | Inr off \<Rightarrow>
          Inr (stats\<lparr>Events := Events stats @
                 [\<lparr>SimpleEvent.EventType = ty, EventTimeOffset = off, Data = d\<rparr>]\<rparr>))"

text \<open>Lines 347-352: the scan of the exiled names, which does not stop at a match.\<close>

fun isExiled_loop :: "bool \<Rightarrow> string list \<Rightarrow> string \<Rightarrow> bool" where
  "isExiled_loop isExiled [] name = isExiled"
| "isExiled_loop isExiled (exiledPlayerName # rest) name =
     isExiled_loop (if exiledPlayerName = name then True else isExiled) rest name"

text \<open>
  Lines 323-377: the body of the loop over the events, on the statistics and the exiled
  names. \<^verbatim>\<open>json.Unmarshal\<close> is the parameter \<open>unmarshal\<close>: \<^const>\<open>None\<close> is its error.
\<close>

definition handle_event ::
  "(string \<Rightarrow> Player option) \<Rightarrow> PostgresGame option \<Rightarrow> GameStatistics \<times> string list \<Rightarrow>
   PostgresGameEvent \<Rightarrow> go_panic + GameStatistics \<times> string list" where
  "handle_event unmarshal pgame st v =
     (case st of (stats, exiledPlayerNames) \<Rightarrow>
        if PostgresGameEvent.EventType v = capture_State then
          if Payload v = DiscussCode then
            (case append_event pgame v Discuss [] (stats\<lparr>NumMeetings := NumMeetings stats + 1\<rparr>) of
               Inl e \<Rightarrow> Inl e
             | Inr stats' \<Rightarrow> Inr (stats', exiledPlayerNames))
          else if Payload v = TasksCode then
            (case append_event pgame v Tasks [] stats of
               Inl e \<Rightarrow> Inl e
             | Inr stats' \<Rightarrow> Inr (stats', exiledPlayerNames))
          else Inr (stats, exiledPlayerNames)
        else if PostgresGameEvent.EventType v = capture_Player then
          (case unmarshal (Payload v) of
             None \<Rightarrow> Inr (stats, exiledPlayerNames)
           | Some player \<Rightarrow>
               if Action player = DIED then
                 if \<not> isExiled_loop False exiledPlayerNames (Name player) then
                   (case append_event pgame v PlayerDeath (Payload v)
                           (stats\<lparr>NumDeaths := NumDeaths stats + 1\<rparr>) of
                      Inl e \<Rightarrow> Inl e
                    | Inr stats' \<Rightarrow> Inr (stats', exiledPlayerNames))
                 else Inr (stats\<lparr>NumDeaths := NumDeaths stats + 1\<rparr>, exiledPlayerNames)
               else if Action player = EXILED then
                 (case append_event pgame v PlayerExiled (Payload v)
                         (stats\<lparr>NumVotedOff := NumVotedOff stats + 1\<rparr>) of
                    Inl e \<Rightarrow> Inl e
                  | Inr stats' \<Rightarrow> Inr (stats', exiledPlayerNames @ [Name player]))
               else if Action player = DISCONNECTED then
                 (case append_event pgame v PlayerDisconnect (Payload v)
                         (stats\<lparr>NumDisconnects := NumDisconnects stats + 1\<rparr>) of
                    Inl e \<Rightarrow> Inl e
                  | Inr stats' \<Rightarrow> Inr (stats', exiledPlayerNames))
               else Inr (stats, exiledPlayerNames))
        else Inr (stats, exiledPlayerNames))"

text \<open>Line 322: the loop, which a panic leaves.\<close>

fun events_loop ::
  "(string \<Rightarrow> Player option) \<Rightarrow> PostgresGame option \<Rightarrow> GameStatistics \<times> string list \<Rightarrow>
   PostgresGameEvent list \<Rightarrow> go_panic + GameStatistics \<times> string list" where
  "events_loop unmarshal pgame st [] = Inr st"
| "events_loop unmarshal pgame st (v # vs) =
     (case handle_event unmarshal pgame st v of
        Inl e \<Rightarrow> Inl e
      | Inr st' \<Rightarrow> events_loop unmarshal pgame st' vs)"

definition StatsFromGameAndEvents ::
  "(string \<Rightarrow> Player option) \<Rightarrow> PostgresGame option \<Rightarrow> PostgresGameEvent list \<Rightarrow>
   PostgresUserGame list \<Rightarrow> go_panic + GameStatistics" where
  "StatsFromGameAndEvents unmarshal pgame events users =
     (let stats = stats_before_events pgame users in
      if length events < 2 then Inr stats
      else
        (case events_loop unmarshal pgame (stats, []) events of
           Inl e \<Rightarrow> Inl e
         | Inr (stats', exiledPlayerNames) \<Rightarrow> Inr stats'))"

subsection \<open>Reading the events\<close>

text \<open>
  Vocabulary for the statements about the scan. A player-action event whose payload
  decodes gives a player record; \<open>is_action unmarshal a v\<close> says that \<open>v\<close> is such an
  event with action \<open>a\<close>, and \<open>action_name\<close> is the name it carries. The names of the
  Exiled actions of a list of events, in order, are \<open>exiled_names\<close>.
\<close>

definition parsed :: "(string \<Rightarrow> Player option) \<Rightarrow> PostgresGameEvent \<Rightarrow> Player option" where
  "parsed unmarshal v =
     (if PostgresGameEvent.EventType v = capture_Player then unmarshal (Payload v) else None)"

definition is_action :: "(string \<Rightarrow> Player option) \<Rightarrow> int \<Rightarrow> PostgresGameEvent \<Rightarrow> bool" where
  "is_action unmarshal a v =
     (case parsed unmarshal v of None \<Rightarrow> False | Some player \<Rightarrow> Action player = a)"

definition action_name :: "(string \<Rightarrow> Player option) \<Rightarrow> PostgresGameEvent \<Rightarrow> string" where
  "action_name unmarshal v = (case parsed unmarshal v of None \<Rightarrow> [] | Some player \<Rightarrow> Name player)"

definition exiled_names :: "(string \<Rightarrow> Player option) \<Rightarrow> PostgresGameEvent list \<Rightarrow> string list" where
  "exiled_names unmarshal vs = map (action_name unmarshal) (filter (is_action unmarshal EXILED) vs)"


subsection \<open>Games won by a role\<close>

text \<open>
  \<^verbatim>\<open>NumGamesWonAsRoleOnServer\<close> (lines 393-407) counts the games of a guild whose
  \<^verbatim>\<open>win_type\<close> passes one of two filters: \<^verbatim>\<open>win_type=0 OR win_type=1 OR win_type=6\<close>
  for the Crewmate role, \<^verbatim>\<open>win_type=2 OR win_type=3 OR win_type=4 OR win_type=5\<close>
  for any other role.
\<close>

definition win_type_filter :: "GameRole \<Rightarrow> int \<Rightarrow> bool" where
  "win_type_filter role win_type =
     (if role = CrewmateRole then win_type = 0 \<or> win_type = 1 \<or> win_type = 6
      else win_type = 2 \<or> win_type = 3 \<or> win_type = 4 \<or> win_type = 5)"

section \<open>The teammate rankings\<close>

text \<open>
  \<^verbatim>\<open>BestTeammateByRole\<close> and \<^verbatim>\<open>WorstTeammateByRole\<close> (lines 623-661) hand one query
  to the store and return the rows it scans. The logic is the text of the query, which
  is embedded here clause by clause over the table \<^verbatim>\<open>users_games\<close> as a list of rows.
  The columns are those the query names; \<^verbatim>\<open>player_won\<close> is never null (the reducer
  reads it into a Go \<^verbatim>\<open>bool\<close>), so the three \<^verbatim>\<open>COUNT\<close>s of a group over
  \<^verbatim>\<open>player_won\<close>, \<^verbatim>\<open>user_id\<close> and \<^verbatim>\<open>*\<close> count the same rows.
\<close>

record UsersGames =
  user_id :: int
  guild_id :: int
  game_id :: int
  player_role :: int
  player_won :: bool

text \<open>
  Modelled from the spec: the row types \<^verbatim>\<open>PostgresBestTeammatePlayerRanking\<close> and
  \<^verbatim>\<open>PostgresWorstTeammatePlayerRanking\<close> are not among the sources. One record stands
  for both, with the columns of the \<^verbatim>\<open>SELECT\<close>: \<open>Count\<close> is \<^verbatim>\<open>win\<close> or
  \<^verbatim>\<open>loose\<close>, \<open>Rate\<close> is \<^verbatim>\<open>win_rate\<close> or \<^verbatim>\<open>loose_rate\<close>.
\<close>

record TeammateRanking =
  RankUserID :: int
  TeammateID :: int
  Total :: int
  Count :: int
  Rate :: rat

text \<open>
  \<^verbatim>\<open>FROM users_games INNER JOIN users_games uG ON users_games.game_id = uG.game_id AND
  users_games.user_id <> uG.user_id WHERE users_games.guild_id = $1 AND
  users_games.player_role = $2 AND uG.player_role = $2 AND users_games.user_id = $3\<close>
\<close>

definition teammate_pairs ::
  "UsersGames list \<Rightarrow> int \<Rightarrow> int \<Rightarrow> int \<Rightarrow> (UsersGames \<times> UsersGames) list" where
  "teammate_pairs users_games guildID role userID =
     filter (\<lambda>(a, uG). guild_id a = guildID \<and> player_role a = role \<and> player_role uG = role \<and>
                        user_id a = userID)
       (filter (\<lambda>(a, uG). game_id a = game_id uG \<and> user_id a \<noteq> user_id uG)
          (List.product users_games users_games))"

text \<open>\<^verbatim>\<open>GROUP BY users_games.user_id, uG.user_id\<close>\<close>

definition group_key :: "UsersGames \<times> UsersGames \<Rightarrow> int \<times> int" where
  "group_key p = (user_id (fst p), user_id (snd p))"

text \<open>
  The row of one group. \<open>won\<close> is the truth value the \<^verbatim>\<open>FILTER\<close> compares
  \<^verbatim>\<open>player_won\<close> with: \<^verbatim>\<open>TRUE\<close> for the best teammates, \<^verbatim>\<open>FALSE\<close> for the worst.
  The quotient \<^verbatim>\<open>COUNT(...)::decimal / COUNT(*)\<close> is computed by the store, to a finite
  scale; \<open>decimal_div\<close> stands for it.
\<close>

definition teammate_row ::
  "bool \<Rightarrow> (int \<Rightarrow> int \<Rightarrow> rat) \<Rightarrow> (UsersGames \<times> UsersGames) list \<Rightarrow> int \<times> int \<Rightarrow>
   TeammateRanking" where
  "teammate_row won decimal_div pairs k =
     (let rows = filter (\<lambda>p. group_key p = k) pairs;
          total = int (length rows);
          cnt = int (length (filter (\<lambda>p. player_won (fst p) = won) rows))
      in \<lparr>RankUserID = fst k, TeammateID = snd k, Total = total, Count = cnt,
          Rate = decimal_div cnt total * 100\<rparr>)"

text \<open>
  The whole query: the groups, \<^verbatim>\<open>HAVING COUNT(users_games.player_won) >= $4\<close>,
  \<^verbatim>\<open>SELECT DISTINCT\<close>, and \<^verbatim>\<open>ORDER BY win_rate DESC, win DESC, total DESC\<close>. The
  store may put rows that agree on all three keys in any order; the stable sort is one
  such order.
\<close>

definition teammate_query ::
  "bool \<Rightarrow> (int \<Rightarrow> int \<Rightarrow> rat) \<Rightarrow> UsersGames list \<Rightarrow> int \<Rightarrow> int \<Rightarrow> int \<Rightarrow> int \<Rightarrow>
   TeammateRanking list" where
  "teammate_query won decimal_div users_games guildID role userID leaderboardMin =
     (let pairs = teammate_pairs users_games guildID role userID;
          groups = map (teammate_row won decimal_div pairs) (remdups (map group_key pairs));
          having = filter (\<lambda>r. leaderboardMin \<le> Total r) groups
      in sort_key (\<lambda>r. (- Rate r, - Count r, - Total r)) (remdups having))"

text \<open>
  \<^verbatim>\<open>pgxscan.Select\<close> appends the rows to \<^verbatim>\<open>r\<close> one by one. A failure (\<open>Some n\<close>: after
  \<open>n\<close> rows, 0 when the query itself fails) is logged and \<^verbatim>\<open>r\<close> is returned as it
  stands.
\<close>

definition pgxscan_Select :: "nat option \<Rightarrow> 'a list \<Rightarrow> 'a list" where
  "pgxscan_Select failure rows = (case failure of None \<Rightarrow> rows | Some n \<Rightarrow> take n rows)"

definition BestTeammateByRole ::
  "(int \<Rightarrow> int \<Rightarrow> rat) \<Rightarrow> nat option \<Rightarrow> UsersGames list \<Rightarrow> int \<Rightarrow> int \<Rightarrow> int \<Rightarrow> int \<Rightarrow>
   TeammateRanking list" where
  "BestTeammateByRole decimal_div failure users_games userID guildID role leaderboardMin =
     pgxscan_Select failure
       (teammate_query True decimal_div users_games guildID role userID leaderboardMin)"

definition WorstTeammateByRole ::
  "(int \<Rightarrow> int \<Rightarrow> rat) \<Rightarrow> nat option \<Rightarrow> UsersGames list \<Rightarrow> int \<Rightarrow> int \<Rightarrow> int \<Rightarrow> int \<Rightarrow>
   TeammateRanking list" where
  "WorstTeammateByRole decimal_div failure users_games userID guildID role leaderboardMin =
     pgxscan_Select failure
       (teammate_query False decimal_div users_games guildID role userID leaderboardMin)"

text \<open>
  The order of the \<^verbatim>\<open>ORDER BY\<close> clause between two rows: a higher rate first, then a
  higher count, then a higher total.
\<close>

definition ranks_before :: "TeammateRanking \<Rightarrow> TeammateRanking \<Rightarrow> bool" where
  "ranks_before a b =
     (Rate b < Rate a \<or>
      (Rate a = Rate b \<and> (Count b < Count a \<or> (Count a = Count b \<and> Total b \<le> Total a))))"

section \<open>Sample rows\<close>

text \<open>
  The rows of the examples. The payloads are JSON texts of player actions, and
  \<open>unmarshal_sample\<close> is what \<^verbatim>\<open>json.Unmarshal\<close> makes of them; it fails on any other
  text. The game and its three events are those of the spec's example: a discussion at
  1010, Alice exiled at 1020, Alice reported dead at 1030.
\<close>

definition payload_died_alice :: string where
  \<open>payload_died_alice = ''{"Action":2,"Name":"Alice"}''\<close>

definition payload_exiled_alice :: string where
  \<open>payload_exiled_alice = ''{"Action":6,"Name":"Alice"}''\<close>

definition payload_disconnected_alice :: string where
  \<open>payload_disconnected_alice = ''{"Action":5,"Name":"Alice"}''\<close>

definition unmarshal_sample :: "string \<Rightarrow> Player option" where
  "unmarshal_sample =
     map_of [(payload_died_alice, \<lparr>Action = DIED, Name = ''Alice''\<rparr>),
             (payload_exiled_alice, \<lparr>Action = EXILED, Name = ''Alice''\<rparr>),
             (payload_disconnected_alice, \<lparr>Action = DISCONNECTED, Name = ''Alice''\<rparr>)]"

definition game_sample :: PostgresGame where
  "game_sample = \<lparr>GameID = 1, GuildID = 1, ConnectCode = ''ABCDEF'', StartTime = 1000,
     PostgresGame.WinType = 1, EndTime = 1100\<rparr>"

definition ev_discuss :: PostgresGameEvent where
  "ev_discuss = \<lparr>EventID = 1, UserID = None, EventGameID = 1, EventTime = 1010,
     PostgresGameEvent.EventType = capture_State, Payload = DiscussCode\<rparr>"

definition ev_tasks :: PostgresGameEvent where
  "ev_tasks = \<lparr>EventID = 2, UserID = None, EventGameID = 1, EventTime = 1015,
     PostgresGameEvent.EventType = capture_State, Payload = TasksCode\<rparr>"

definition ev_exiled_alice :: PostgresGameEvent where
  "ev_exiled_alice = \<lparr>EventID = 3, UserID = Some 7, EventGameID = 1, EventTime = 1020,
     PostgresGameEvent.EventType = capture_Player, Payload = payload_exiled_alice\<rparr>"

definition ev_died_alice :: PostgresGameEvent where
  "ev_died_alice = \<lparr>EventID = 4, UserID = Some 7, EventGameID = 1, EventTime = 1030,
     PostgresGameEvent.EventType = capture_Player, Payload = payload_died_alice\<rparr>"

definition ev_disconnected_alice :: PostgresGameEvent where
  "ev_disconnected_alice = \<lparr>EventID = 5, UserID = Some 7, EventGameID = 1, EventTime = 1025,
     PostgresGameEvent.EventType = capture_Player, Payload = payload_disconnected_alice\<rparr>"

definition users_sample :: "PostgresUserGame list" where
  "users_sample = [\<lparr>PlayerName = ''Alice'', PlayerWon = False\<rparr>,
                   \<lparr>PlayerName = ''Bob'', PlayerWon = True\<rparr>]"

text \<open>A store that divides exactly, and a table of three games of guild 9.\<close>

definition exact_div :: "int \<Rightarrow> int \<Rightarrow> rat" where
  "exact_div a b = of_int a / of_int b"

definition users_games_sample :: "UsersGames list" where
  "users_games_sample =
     [\<lparr>user_id = 1, guild_id = 9, game_id = 100, player_role = 0, player_won = True\<rparr>,
      \<lparr>user_id = 2, guild_id = 9, game_id = 100, player_role = 0, player_won = True\<rparr>,
      \<lparr>user_id = 3, guild_id = 9, game_id = 100, player_role = 0, player_won = True\<rparr>,
      \<lparr>user_id = 1, guild_id = 9, game_id = 101, player_role = 0, player_won = False\<rparr>,
      \<lparr>user_id = 2, guild_id = 9, game_id = 101, player_role = 0, player_won = False\<rparr>,
      \<lparr>user_id = 4, guild_id = 9, game_id = 101, player_role = 0, player_won = False\<rparr>,
      \<lparr>user_id = 1, guild_id = 9, game_id = 102, player_role = 0, player_won = True\<rparr>,
      \<lparr>user_id = 3, guild_id = 9, game_id = 102, player_role = 0, player_won = True\<rparr>]"

section \<open>Properties of the reducer\<close>

subsection \<open>Unfolding\<close>

lemmas reducer_defs =
  StatsFromGameAndEvents_def stats_before_events_def stats_role_def stats_game_def
  stats_init_def handle_event_def append_event_def event_offset_def Let_def
  ImpostorByVote_def ImpostorByKill_def ImpostorBySabotage_def ImpostorDisconnect_def
  Unknown_def
  TASKS_def DISCUSS_def capture_State_def capture_Player_def DIED_def DISCONNECTED_def
  EXILED_def DiscussCode_def TasksCode_def Sprintf_d_def time_Second_def

lemmas reading_defs = parsed_def is_action_def action_name_def exiled_names_def

lemmas sample_defs =
  payload_died_alice_def payload_exiled_alice_def payload_disconnected_alice_def
  unmarshal_sample_def game_sample_def ev_discuss_def ev_tasks_def ev_exiled_alice_def
  ev_died_alice_def ev_disconnected_alice_def users_sample_def

lemmas ranking_defs = BestTeammateByRole_def WorstTeammateByRole_def pgxscan_Select_def
  teammate_query_def teammate_row_def teammate_pairs_def group_key_def Let_def exact_div_def

lemma consts_distinct:
  "DIED \<noteq> EXILED" "DIED \<noteq> DISCONNECTED" "EXILED \<noteq> DISCONNECTED"
  "capture_State \<noteq> capture_Player" "DiscussCode \<noteq> TasksCode"
  by (simp_all add: DIED_def EXILED_def DISCONNECTED_def capture_State_def capture_Player_def
        DiscussCode_def TasksCode_def Sprintf_d_def DISCUSS_def TASKS_def)

subsection \<open>The loop over the user rows\<close>

lemma users_loop_wins:
  "WinPlayerNames (users_loop stats users) =
     WinPlayerNames stats @ map PlayerName (filter PlayerWon users)"
  by (induction users arbitrary: stats) simp_all

lemma users_loop_loses:
  "LosePlayerNames (users_loop stats users) =
     LosePlayerNames stats @ map PlayerName (filter (\<lambda>v. \<not> PlayerWon v) users)"
  by (induction users arbitrary: stats) simp_all

lemma users_loop_other:
  "Events (users_loop stats users) = Events stats"
  "NumMeetings (users_loop stats users) = NumMeetings stats"
  "NumDeaths (users_loop stats users) = NumDeaths stats"
  "NumVotedOff (users_loop stats users) = NumVotedOff stats"
  "NumDisconnects (users_loop stats users) = NumDisconnects stats"
  "GameStatistics.WinType (users_loop stats users) = GameStatistics.WinType stats"
  "WinRole (users_loop stats users) = WinRole stats"
  "GameStartTime (users_loop stats users) = GameStartTime stats"
  "GameEndTime (users_loop stats users) = GameEndTime stats"
  "GameDuration (users_loop stats users) = GameDuration stats"
  by (induction users arbitrary: stats, simp_all)+

lemma before_events_fields:
  "Events (stats_before_events pgame users) = []"
  "NumMeetings (stats_before_events pgame users) = 0"
  "NumDeaths (stats_before_events pgame users) = 0"
  "NumVotedOff (stats_before_events pgame users) = 0"
  "NumDisconnects (stats_before_events pgame users) = 0"
  "WinPlayerNames (stats_before_events pgame users) = map PlayerName (filter PlayerWon users)"
  "LosePlayerNames (stats_before_events pgame users) =
     map PlayerName (filter (\<lambda>v. \<not> PlayerWon v) users)"
  by (simp_all add: stats_before_events_def users_loop_other users_loop_wins users_loop_loses
        stats_role_def stats_game_def stats_init_def split: option.splits)

lemma before_events_win:
  "GameStatistics.WinType (stats_before_events pgame users) =
     (case pgame of None \<Rightarrow> Unknown | Some g \<Rightarrow> PostgresGame.WinType g)"
  "WinRole (stats_before_events pgame users) =
     (if GameStatistics.WinType (stats_before_events pgame users) \<in> {2, 3, 4, 5}
      then ImposterRole else CrewmateRole)"
  by (simp_all add: stats_before_events_def users_loop_other stats_role_def stats_game_def
        stats_init_def ImpostorByVote_def ImpostorByKill_def ImpostorBySabotage_def
        ImpostorDisconnect_def split: option.splits)

subsection \<open>One event\<close>

lemma isExiled_loop_iff: "isExiled_loop b names n \<longleftrightarrow> b \<or> n \<in> set names"
  by (induction names arbitrary: b) auto

lemma is_actionE:
  assumes "is_action um a v"
  obtains player where "PostgresGameEvent.EventType v = capture_Player"
    and "um (Payload v) = Some player" and "Action player = a"
    and "action_name um v = Name player"
  using assms
  by (auto simp: is_action_def action_name_def parsed_def split: if_splits option.splits)

lemma handle_event_Some:
  "\<exists>st'. handle_event um (Some g) st v = Inr st'"
  by (cases st) (simp add: handle_event_def append_event_def event_offset_def split: option.splits)

lemma handle_event_names:
  "handle_event um pgame (stats, ex) v = Inr (stats', ex') \<Longrightarrow>
   WinPlayerNames stats' = WinPlayerNames stats \<and> LosePlayerNames stats' = LosePlayerNames stats"
  by (auto simp: handle_event_def append_event_def split: if_splits sum.splits option.splits)

lemma handle_event_win:
  "handle_event um pgame (stats, ex) v = Inr (stats', ex') \<Longrightarrow>
   GameStatistics.WinType stats' = GameStatistics.WinType stats \<and> WinRole stats' = WinRole stats"
  by (auto simp: handle_event_def append_event_def split: if_splits sum.splits option.splits)

lemma handle_event_times:
  "handle_event um pgame (stats, ex) v = Inr (stats', ex') \<Longrightarrow>
   GameStartTime stats' = GameStartTime stats \<and> GameEndTime stats' = GameEndTime stats \<and>
   GameDuration stats' = GameDuration stats"
  by (auto simp: handle_event_def append_event_def split: if_splits sum.splits option.splits)

lemma handle_event_exiled:
  "handle_event um pgame (stats, ex) v = Inr (stats', ex') \<Longrightarrow> ex' = ex @ exiled_names um [v]"
  using consts_distinct
  by (auto simp: handle_event_def exiled_names_def is_action_def action_name_def parsed_def
      split: if_splits sum.splits option.splits)

lemma handle_event_deaths:
  "handle_event um pgame (stats, ex) v = Inr (stats', ex') \<Longrightarrow>
   NumDeaths stats' = NumDeaths stats + (if is_action um DIED v then 1 else 0)"
  using consts_distinct
  by (auto simp: handle_event_def append_event_def is_action_def parsed_def
      split: if_splits sum.splits option.splits)

lemma handle_event_shown:
  "handle_event um pgame (stats, ex) v = Inr (stats', ex') \<Longrightarrow>
   length (filter (\<lambda>e. SimpleEvent.EventType e = PlayerDeath) (Events stats')) =
   length (filter (\<lambda>e. SimpleEvent.EventType e = PlayerDeath) (Events stats)) +
     (if is_action um DIED v \<and> action_name um v \<notin> set ex then 1 else 0)"
  using consts_distinct
  by (auto simp: handle_event_def append_event_def is_action_def action_name_def parsed_def
        isExiled_loop_iff
      split: if_splits sum.splits option.splits)

lemma handle_event_shown_le:
  "handle_event um pgame (stats, ex) v = Inr (stats', ex') \<Longrightarrow>
   length (filter (\<lambda>e. SimpleEvent.EventType e = PlayerDeath) (Events stats')) \<le>
   length (filter (\<lambda>e. SimpleEvent.EventType e = PlayerDeath) (Events stats)) +
     (if is_action um DIED v then 1 else 0)"
  using handle_event_shown[of um pgame stats ex v stats' ex'] by simp


lemma handle_event_grows:
  "handle_event um pgame (stats, ex) v = Inr (stats', ex') \<Longrightarrow> prefix (Events stats) (Events stats')"
  by (auto simp: handle_event_def append_event_def split: if_splits sum.splits option.splits)


lemma handle_event_died:
  assumes "is_action um DIED v"
  shows "handle_event um (Some g) (s1, ex1) v =
     Inr (s1\<lparr>NumDeaths := NumDeaths s1 + 1,
             Events := (if action_name um v \<in> set ex1 then Events s1
                        else Events s1 @ [\<lparr>SimpleEvent.EventType = PlayerDeath,
                               EventTimeOffset = time_Second * (EventTime v - StartTime g),
                               Data = Payload v\<rparr>])\<rparr>, ex1)"
proof -
  from assms obtain player where ty: "PostgresGameEvent.EventType v = capture_Player"
    and um: "um (Payload v) = Some player" and a: "Action player = DIED"
    and n: "action_name um v = Name player"
    by (rule is_actionE)
  have ns: "capture_Player \<noteq> capture_State"
    by (simp add: capture_Player_def capture_State_def)
  show ?thesis
    by (simp add: handle_event_def append_event_def event_offset_def ty um a n ns
          isExiled_loop_iff)
qed


subsection \<open>The loop over the events\<close>

lemma events_loop_append:
  "events_loop um pgame st (xs @ ys) =
     (case events_loop um pgame st xs of Inl e \<Rightarrow> Inl e | Inr st' \<Rightarrow> events_loop um pgame st' ys)"
  by (induction xs arbitrary: st) (simp_all split: sum.splits)

lemma events_loop_snoc:
  "events_loop um pgame st (pre @ [v]) =
     (case events_loop um pgame st pre of Inl e \<Rightarrow> Inl e | Inr st' \<Rightarrow> handle_event um pgame st' v)"
  by (simp add: events_loop_append split: sum.splits)

lemma events_loop_ConsE:
  assumes "events_loop um pgame (stats, ex) (v # vs) = Inr (stats', ex')"
  obtains s1 ex1 where "handle_event um pgame (stats, ex) v = Inr (s1, ex1)"
    and "events_loop um pgame (s1, ex1) vs = Inr (stats', ex')"
proof -
  from assms obtain st1 where h: "handle_event um pgame (stats, ex) v = Inr st1"
    by (auto split: sum.splits)
  obtain s1 ex1 where st1: "st1 = (s1, ex1)" by (cases st1)
  from assms h st1 have "events_loop um pgame (s1, ex1) vs = Inr (stats', ex')" by simp
  with h st1 that show thesis by simp
qed

lemma events_loop_Some:
  "\<exists>st'. events_loop um (Some g) st vs = Inr st'"
proof (induction vs arbitrary: st)
  case Nil
  show ?case by simp
next
  case (Cons v vs)
  obtain st1 where "handle_event um (Some g) st v = Inr st1"
    using handle_event_Some by blast
  with Cons.IH[of st1] show ?case by simp
qed

lemma events_loop_names:
  "events_loop um pgame (stats, ex) vs = Inr (stats', ex') \<Longrightarrow>
   WinPlayerNames stats' = WinPlayerNames stats \<and> LosePlayerNames stats' = LosePlayerNames stats"
proof (induction vs arbitrary: stats ex)
  case Nil
  then show ?case by simp
next
  case (Cons v vs)
  then obtain st1 where h: "handle_event um pgame (stats, ex) v = Inr st1"
    by (auto split: sum.splits)
  obtain s1 e1 where st1: "st1 = (s1, e1)" by (cases st1)
  from Cons.prems h st1 have "events_loop um pgame (s1, e1) vs = Inr (stats', ex')" by simp
  from Cons.IH[OF this] handle_event_names[OF h[unfolded st1]] show ?case by simp
qed

lemma events_loop_win:
  "events_loop um pgame (stats, ex) vs = Inr (stats', ex') \<Longrightarrow>
   GameStatistics.WinType stats' = GameStatistics.WinType stats \<and> WinRole stats' = WinRole stats"
proof (induction vs arbitrary: stats ex)
  case Nil
  then show ?case by simp
next
  case (Cons v vs)
  from Cons.prems obtain s1 ex1 where h: "handle_event um pgame (stats, ex) v = Inr (s1, ex1)"
    and r: "events_loop um pgame (s1, ex1) vs = Inr (stats', ex')"
    by (rule events_loop_ConsE)
  from Cons.IH[OF r] handle_event_win[OF h] show ?case by simp
qed

lemma events_loop_times:
  "events_loop um pgame (stats, ex) vs = Inr (stats', ex') \<Longrightarrow>
   GameStartTime stats' = GameStartTime stats \<and> GameEndTime stats' = GameEndTime stats \<and>
   GameDuration stats' = GameDuration stats"
proof (induction vs arbitrary: stats ex)
  case Nil
  then show ?case by simp
next
  case (Cons v vs)
  from Cons.prems obtain s1 ex1 where h: "handle_event um pgame (stats, ex) v = Inr (s1, ex1)"
    and r: "events_loop um pgame (s1, ex1) vs = Inr (stats', ex')"
    by (rule events_loop_ConsE)
  from Cons.IH[OF r] handle_event_times[OF h] show ?case by simp
qed

lemma exiled_names_Cons: "exiled_names um (v # vs) = exiled_names um [v] @ exiled_names um vs"
  by (simp add: exiled_names_def)

lemma exiled_names_snoc_other:
  assumes "is_action um a v" and "a \<noteq> EXILED"
  shows "exiled_names um (pre @ [v]) = exiled_names um pre"
proof -
  from assms have "\<not> is_action um EXILED v"
    by (auto simp: is_action_def split: option.splits)
  then show ?thesis by (simp add: exiled_names_def)
qed

lemma events_loop_exiled:
  "events_loop um pgame (stats, ex) vs = Inr (stats', ex') \<Longrightarrow> ex' = ex @ exiled_names um vs"
proof (induction vs arbitrary: stats ex)
  case Nil
  then show ?case by (simp add: exiled_names_def)
next
  case (Cons v vs)
  from Cons.prems obtain s1 ex1 where h: "handle_event um pgame (stats, ex) v = Inr (s1, ex1)"
    and r: "events_loop um pgame (s1, ex1) vs = Inr (stats', ex')"
    by (rule events_loop_ConsE)
  from Cons.IH[OF r] handle_event_exiled[OF h] show ?case
    by (simp add: exiled_names_Cons[of um v vs])
qed

lemma events_loop_Some_exiled:
  "\<exists>s'. events_loop um (Some g) (s0, ex0) vs = Inr (s', ex0 @ exiled_names um vs)"
proof -
  obtain st' where r: "events_loop um (Some g) (s0, ex0) vs = Inr st'"
    using events_loop_Some by blast
  obtain s' ex' where st': "st' = (s', ex')" by (cases st')
  from r st' events_loop_exiled[of um "Some g" s0 ex0 vs s' ex'] show ?thesis by simp
qed

lemma events_loop_deaths:
  "events_loop um pgame (stats, ex) vs = Inr (stats', ex') \<Longrightarrow>
   NumDeaths stats' = NumDeaths stats + int (length (filter (is_action um DIED) vs))"
proof (induction vs arbitrary: stats ex)
  case Nil
  then show ?case by simp
next
  case (Cons v vs)
  from Cons.prems obtain s1 ex1 where h: "handle_event um pgame (stats, ex) v = Inr (s1, ex1)"
    and r: "events_loop um pgame (s1, ex1) vs = Inr (stats', ex')"
    by (rule events_loop_ConsE)
  from Cons.IH[OF r] handle_event_deaths[OF h] show ?case by simp
qed

lemma events_loop_shown_le:
  "events_loop um pgame (stats, ex) vs = Inr (stats', ex') \<Longrightarrow>
   length (filter (\<lambda>e. SimpleEvent.EventType e = PlayerDeath) (Events stats')) \<le>
   length (filter (\<lambda>e. SimpleEvent.EventType e = PlayerDeath) (Events stats)) +
     length (filter (is_action um DIED) vs)"
proof (induction vs arbitrary: stats ex)
  case Nil
  then show ?case by simp
next
  case (Cons v vs)
  from Cons.prems obtain s1 ex1 where h: "handle_event um pgame (stats, ex) v = Inr (s1, ex1)"
    and r: "events_loop um pgame (s1, ex1) vs = Inr (stats', ex')"
    by (rule events_loop_ConsE)
  show ?case
  proof (cases "is_action um DIED v")
    case True
    with Cons.IH[OF r] handle_event_shown_le[OF h] show ?thesis by simp
  next
    case False
    with Cons.IH[OF r] handle_event_shown_le[OF h] show ?thesis by simp
  qed
qed


lemma events_loop_grows:
  "events_loop um pgame (stats, ex) vs = Inr (stats', ex') \<Longrightarrow> prefix (Events stats) (Events stats')"
proof (induction vs arbitrary: stats ex)
  case Nil
  then show ?case by simp
next
  case (Cons v vs)
  from Cons.prems obtain s1 ex1 where h: "handle_event um pgame (stats, ex) v = Inr (s1, ex1)"
    and r: "events_loop um pgame (s1, ex1) vs = Inr (stats', ex')"
    by (rule events_loop_ConsE)
  from Cons.IH[OF r] handle_event_grows[OF h] show ?case by (rule prefix_order.trans[rotated])
qed


subsection \<open>The whole reducer\<close>

lemma Stats_short:
  assumes "length events < 2"
  shows "StatsFromGameAndEvents um pgame events users = Inr (stats_before_events pgame users)"
  using assms by (simp add: StatsFromGameAndEvents_def Let_def)

lemma Stats_long:
  assumes "2 \<le> length events"
  shows "StatsFromGameAndEvents um pgame events users =
     (case events_loop um pgame (stats_before_events pgame users, []) events of
        Inl e \<Rightarrow> Inl e | Inr st \<Rightarrow> Inr (fst st))"
  using assms by (simp add: StatsFromGameAndEvents_def Let_def split: sum.splits prod.splits)

lemma Stats_Some:
  "\<exists>s. StatsFromGameAndEvents um (Some g) events users = Inr s"
proof -
  obtain s ex where "events_loop um (Some g) (stats_before_events (Some g) users, []) events = Inr (s, ex)"
    using events_loop_Some[of um g] by (metis surj_pair)
  then show ?thesis by (simp add: StatsFromGameAndEvents_def Let_def)
qed

lemma Stats_names:
  assumes "StatsFromGameAndEvents um pgame events users = Inr s"
  shows "WinPlayerNames s = map PlayerName (filter PlayerWon users)"
    and "LosePlayerNames s = map PlayerName (filter (\<lambda>v. \<not> PlayerWon v) users)"
proof -
  have b: "WinPlayerNames (stats_before_events pgame users) = map PlayerName (filter PlayerWon users)"
     "LosePlayerNames (stats_before_events pgame users) = map PlayerName (filter (\<lambda>v. \<not> PlayerWon v) users)"
    by (simp_all add: stats_before_events_def users_loop_wins users_loop_loses stats_role_def
         stats_game_def stats_init_def split: option.splits)
  show "WinPlayerNames s = map PlayerName (filter PlayerWon users)"
    and "LosePlayerNames s = map PlayerName (filter (\<lambda>v. \<not> PlayerWon v) users)"
    using assms b events_loop_names[of um pgame "stats_before_events pgame users" "[]" events]
    by (auto simp: StatsFromGameAndEvents_def Let_def split: if_splits sum.splits prod.splits)
qed

lemma Stats_win:
  assumes "StatsFromGameAndEvents um pgame events users = Inr s"
  shows "GameStatistics.WinType s = (case pgame of None \<Rightarrow> Unknown | Some g \<Rightarrow> PostgresGame.WinType g)"
    and "WinRole s = (if GameStatistics.WinType s \<in> {2, 3, 4, 5} then ImposterRole else CrewmateRole)"
proof -
  have "GameStatistics.WinType s = GameStatistics.WinType (stats_before_events pgame users) \<and>
        WinRole s = WinRole (stats_before_events pgame users)"
  proof (cases "length events < 2")
    case True
    with assms have "s = stats_before_events pgame users" by (simp add: Stats_short)
    then show ?thesis by simp
  next
    case False
    then have len: "2 \<le> length events" by simp
    from assms obtain ex where
      "events_loop um pgame (stats_before_events pgame users, []) events = Inr (s, ex)"
      by (auto simp: Stats_long[OF len] split: sum.splits)
    then show ?thesis by (rule events_loop_win)
  qed
  then show "GameStatistics.WinType s = (case pgame of None \<Rightarrow> Unknown | Some g \<Rightarrow> PostgresGame.WinType g)"
    and "WinRole s = (if GameStatistics.WinType s \<in> {2, 3, 4, 5} then ImposterRole else CrewmateRole)"
    using before_events_win[of pgame users] by simp_all
qed


lemma nil_game_defaults:
  assumes "StatsFromGameAndEvents um None events users = Inr s"
  shows "GameStartTime s = Time_zero \<and> GameEndTime s = Time_zero \<and> GameDuration s = 0 \<and>
     GameStatistics.WinType s = Unknown \<and> WinRole s = CrewmateRole \<and>
     WinPlayerNames s = map PlayerName (filter PlayerWon users) \<and>
     LosePlayerNames s = map PlayerName (filter (\<lambda>v. \<not> PlayerWon v) users)"
proof -
  let ?b = "stats_before_events None users"
  have b: "GameStartTime ?b = Time_zero \<and> GameEndTime ?b = Time_zero \<and> GameDuration ?b = 0"
    by (simp add: stats_before_events_def users_loop_other stats_role_def stats_game_def
          stats_init_def)
  have "GameStartTime s = GameStartTime ?b \<and> GameEndTime s = GameEndTime ?b \<and>
        GameDuration s = GameDuration ?b"
  proof (cases "length events < 2")
    case True
    with assms have "s = ?b" by (simp add: Stats_short)
    then show ?thesis by simp
  next
    case False
    then have len: "2 \<le> length events" by simp
    from assms obtain ex where "events_loop um None (?b, []) events = Inr (s, ex)"
      by (auto simp: Stats_long[OF len] split: sum.splits)
    then show ?thesis by (rule events_loop_times)
  qed
  moreover have "GameStatistics.WinType s = Unknown"
    using Stats_win(1)[OF assms] by simp
  moreover from this have "WinRole s = CrewmateRole"
    using Stats_win(2)[OF assms] by (simp add: Unknown_def)
  ultimately show ?thesis using b Stats_names[OF assms] by simp
qed




lemma died_step:
  assumes d: "is_action um DIED v"
  shows "\<exists>s1. events_loop um (Some g) (s0, ex0) pre = Inr (s1, ex0 @ exiled_names um pre) \<and>
         events_loop um (Some g) (s0, ex0) (pre @ [v]) =
           Inr (s1\<lparr>NumDeaths := NumDeaths s1 + 1,
                   Events := (if action_name um v \<in> set (ex0 @ exiled_names um pre)
                              then Events s1
                              else Events s1 @ [\<lparr>SimpleEvent.EventType = PlayerDeath,
                                     EventTimeOffset = time_Second * (EventTime v - StartTime g),
                                     Data = Payload v\<rparr>])\<rparr>,
                ex0 @ exiled_names um pre)"
proof -
  obtain s1 where r: "events_loop um (Some g) (s0, ex0) pre = Inr (s1, ex0 @ exiled_names um pre)"
    using events_loop_Some_exiled by blast
  have "events_loop um (Some g) (s0, ex0) (pre @ [v]) =
      handle_event um (Some g) (s1, ex0 @ exiled_names um pre) v"
    unfolding events_loop_snoc r by simp
  also note handle_event_died[OF d, of g s1 "ex0 @ exiled_names um pre"]
  finally show ?thesis using r by blast
qed

lemma died_run:
  assumes len: "2 \<le> length events"
  shows "\<exists>s. StatsFromGameAndEvents um (Some g) events users = Inr s \<and>
         NumDeaths s = int (length (filter (is_action um DIED) events)) \<and>
         int (length (filter (\<lambda>e. SimpleEvent.EventType e = PlayerDeath) (Events s)))
           \<le> NumDeaths s"
proof -
  obtain st where r: "events_loop um (Some g) (stats_before_events (Some g) users, []) events = Inr st"
    using events_loop_Some by blast
  obtain s ex where st: "st = (s, ex)" by (cases st)
  have res: "StatsFromGameAndEvents um (Some g) events users = Inr s"
    by (simp add: Stats_long[OF len] r st)
  have n: "NumDeaths s = int (length (filter (is_action um DIED) events))"
    using events_loop_deaths[OF r[unfolded st]] by (simp add: before_events_fields)
  have "length (filter (\<lambda>e. SimpleEvent.EventType e = PlayerDeath) (Events s))
      \<le> length (filter (is_action um DIED) events)"
    using events_loop_shown_le[OF r[unfolded st]] by (simp add: before_events_fields)
  with n res show ?thesis by simp
qed

lemma died_entry_kept:
  assumes len: "2 \<le> length (pre @ v # post)"
    and d: "is_action um DIED v"
    and n: "action_name um v \<notin> set (exiled_names um pre)"
  shows "\<exists>s s1 rest.
     StatsFromGameAndEvents um (Some g) (pre @ v # post) users = Inr s \<and>
     events_loop um (Some g) (stats_before_events (Some g) users, []) pre =
       Inr (s1, exiled_names um pre) \<and>
     Events s = Events s1 @ [\<lparr>SimpleEvent.EventType = PlayerDeath,
                   EventTimeOffset = time_Second * (EventTime v - StartTime g),
                   Data = Payload v\<rparr>] @ rest"
proof -
  let ?st0 = "(stats_before_events (Some g) users, [])"
  let ?entry = "\<lparr>SimpleEvent.EventType = PlayerDeath,
                   EventTimeOffset = time_Second * (EventTime v - StartTime g),
                   Data = Payload v\<rparr>"
  obtain s1 where r1: "events_loop um (Some g) ?st0 pre = Inr (s1, exiled_names um pre)"
    using events_loop_Some_exiled[of um g "stats_before_events (Some g) users" "[]" pre] by auto
  define s2 where "s2 = s1\<lparr>NumDeaths := NumDeaths s1 + 1, Events := Events s1 @ [?entry]\<rparr>"
  have h: "handle_event um (Some g) (s1, exiled_names um pre) v = Inr (s2, exiled_names um pre)"
    using handle_event_died[OF d, of g s1 "exiled_names um pre"] n by (simp add: s2_def)
  obtain st3 where r3: "events_loop um (Some g) (s2, exiled_names um pre) post = Inr st3"
    using events_loop_Some by blast
  obtain s ex where st3: "st3 = (s, ex)" by (cases st3)
  have "prefix (Events s2) (Events s)"
    using r3[unfolded st3] by (rule events_loop_grows)
  then obtain rest where rest: "Events s = Events s2 @ rest" by (auto simp: prefix_def)
  have "events_loop um (Some g) ?st0 (pre @ v # post) = Inr (s, ex)"
    by (simp add: events_loop_append r1 h r3 st3)
  then have res: "StatsFromGameAndEvents um (Some g) (pre @ v # post) users = Inr s"
    by (simp add: Stats_long[OF len])
  have "Events s = Events s1 @ [?entry] @ rest" using rest by (simp add: s2_def)
  with res r1 show ?thesis by blast
qed

text \<open>
  The two examples of the spec: Alice exiled and then reported dead gives no PlayerDeath
  entry; the same events with the death first give one.
\<close>

lemma sample_run:
  "StatsFromGameAndEvents unmarshal_sample (Some game_sample)
     [ev_discuss, ev_exiled_alice, ev_died_alice] users_sample =
   Inr \<lparr>GameStartTime = Time_Unix 1000, GameEndTime = Time_Unix 1100,
        GameDuration = 100000000000, GameStatistics.WinType = 1, WinRole = CrewmateRole,
        WinPlayerNames = [''Bob''], LosePlayerNames = [''Alice''],
        NumMeetings = 1, NumDeaths = 1, NumVotedOff = 1, NumDisconnects = 0,
        Events = [\<lparr>SimpleEvent.EventType = Discuss, EventTimeOffset = 10000000000, Data = []\<rparr>,
                  \<lparr>SimpleEvent.EventType = PlayerExiled, EventTimeOffset = 20000000000,
                   Data = payload_exiled_alice\<rparr>]\<rparr>"
  by (simp add: reducer_defs sample_defs)

lemma sample_run_swapped:
  "StatsFromGameAndEvents unmarshal_sample (Some game_sample)
     [ev_discuss, ev_died_alice, ev_exiled_alice] users_sample =
   Inr \<lparr>GameStartTime = Time_Unix 1000, GameEndTime = Time_Unix 1100,
        GameDuration = 100000000000, GameStatistics.WinType = 1, WinRole = CrewmateRole,
        WinPlayerNames = [''Bob''], LosePlayerNames = [''Alice''],
        NumMeetings = 1, NumDeaths = 1, NumVotedOff = 1, NumDisconnects = 0,
        Events = [\<lparr>SimpleEvent.EventType = Discuss, EventTimeOffset = 10000000000, Data = []\<rparr>,
                  \<lparr>SimpleEvent.EventType = PlayerDeath, EventTimeOffset = 30000000000,
                   Data = payload_died_alice\<rparr>,
                  \<lparr>SimpleEvent.EventType = PlayerExiled, EventTimeOffset = 20000000000,
                   Data = payload_exiled_alice\<rparr>]\<rparr>"
  by (simp add: reducer_defs sample_defs)

section \<open>Properties of the rankings\<close>

lemma sorted_wrt_ranks:
  "sorted_wrt ranks_before (sort_key (\<lambda>r. (- Rate r, - Count r, - Total r)) rows)"
proof -
  have "sorted (map (\<lambda>r. (- Rate r, - Count r, - Total r))
          (sort_key (\<lambda>r. (- Rate r, - Count r, - Total r)) rows))"
    by (rule sorted_sort_key)
  then have "sorted_wrt (\<lambda>a b. (- Rate a, - Count a, - Total a) \<le> (- Rate b, - Count b, - Total b))
          (sort_key (\<lambda>r. (- Rate r, - Count r, - Total r)) rows)"
    by (simp add: sorted_map)
  then show ?thesis
    by (rule sorted_wrt_mono_rel[rotated]) (auto simp: ranks_before_def less_eq_prod_def less_prod_def)
qed

lemma query_having:
  "r \<in> set (teammate_query won dd tbl gid role uid m) \<Longrightarrow> m \<le> Total r"
  by (auto simp: teammate_query_def Let_def)

lemma select_set: "r \<in> set (pgxscan_Select failure rows) \<Longrightarrow> r \<in> set rows"
  by (auto simp: pgxscan_Select_def split: option.splits dest: in_set_takeD)

lemma select_sorted: "sorted_wrt P rows \<Longrightarrow> sorted_wrt P (pgxscan_Select failure rows)"
  by (auto simp: pgxscan_Select_def split: option.splits intro: sorted_wrt_take)

lemma best_sample:
  "BestTeammateByRole exact_div None users_games_sample 1 9 0 2 =
     [\<lparr>RankUserID = 1, TeammateID = 3, Total = 2, Count = 2, Rate = 100\<rparr>,
      \<lparr>RankUserID = 1, TeammateID = 2, Total = 2, Count = 1, Rate = 50\<rparr>]"
  by (simp add: ranking_defs users_games_sample_def)

lemma worst_sample:
  "WorstTeammateByRole exact_div None users_games_sample 1 9 0 1 =
     [\<lparr>RankUserID = 1, TeammateID = 4, Total = 1, Count = 1, Rate = 100\<rparr>,
  \<lparr>RankUserID = 1, TeammateID = 2, Total = 2, Count = 1, Rate = 50\<rparr>,
  \<lparr>RankUserID = 1, TeammateID = 3, Total = 2, Count = 0, Rate = 0\<rparr>]"
  by (simp add: ranking_defs users_games_sample_def)

section \<open>The claims\<close>

text \<open>
  Claim C1 as stated fails: for an event sequence of one Died action the reducer
  returns at line 318, before the scan, and the death counter stays 0 although one Died
  action parses.
\<close>

theorem death_counter_counterexample:
  "length (filter (is_action unmarshal_sample DIED) [ev_died_alice]) = 1 \<and>
   StatsFromGameAndEvents unmarshal_sample (Some game_sample) [ev_died_alice] users_sample =
     Inr \<lparr>GameStartTime = Time_Unix 1000, GameEndTime = Time_Unix 1100,
          GameDuration = 100000000000, GameStatistics.WinType = 1, WinRole = CrewmateRole,
          WinPlayerNames = [''Bob''], LosePlayerNames = [''Alice''],
          NumMeetings = 0, NumDeaths = 0, NumVotedOff = 0, NumDisconnects = 0, Events = []\<rparr>"
  by (simp add: reducer_defs sample_defs reading_defs)

text \<open>
  Claim C1, amended to event sequences of at least two entries. In the scan, a Died action
  \<open>v\<close> that follows the events \<open>pre\<close> adds one to the death counter, and appends a
  PlayerDeath entry exactly when its player is not among the names exiled so far, which
  are the list the loop holds at that point. At the end the death counter is the number
  of Died actions that were decoded, and the PlayerDeath entries are at most as many.
\<close>

theorem death_counter_and_timeline:
  "(is_action um DIED v \<longrightarrow>
      (\<exists>s1. events_loop um (Some g) (s0, ex0) pre = Inr (s1, ex0 @ exiled_names um pre) \<and>
         events_loop um (Some g) (s0, ex0) (pre @ [v]) =
           Inr (s1\<lparr>NumDeaths := NumDeaths s1 + 1,
                   Events := (if action_name um v \<in> set (ex0 @ exiled_names um pre)
                              then Events s1
                              else Events s1 @ [\<lparr>SimpleEvent.EventType = PlayerDeath,
                                     EventTimeOffset = time_Second * (EventTime v - StartTime g),
                                     Data = Payload v\<rparr>])\<rparr>,
                ex0 @ exiled_names um pre))) \<and>
   (2 \<le> length events \<longrightarrow>
      (\<exists>s. StatsFromGameAndEvents um (Some g) events users = Inr s \<and>
         NumDeaths s = int (length (filter (is_action um DIED) events)) \<and>
         int (length (filter (\<lambda>e. SimpleEvent.EventType e = PlayerDeath) (Events s)))
           \<le> NumDeaths s))"
  using died_step[of um v g s0 ex0 pre] died_run[of events um g users] by blast

theorem death_counter_and_timeline_witness:
  "is_action unmarshal_sample DIED ev_died_alice \<and>
   2 \<le> length [ev_discuss, ev_exiled_alice, ev_died_alice] \<and>
   events_loop unmarshal_sample (Some game_sample) (stats_init, [])
     [ev_discuss, ev_exiled_alice] =
     Inr (stats_init\<lparr>NumMeetings := 1, NumVotedOff := 1,
            Events := [\<lparr>SimpleEvent.EventType = Discuss, EventTimeOffset = 10000000000, Data = []\<rparr>,
                       \<lparr>SimpleEvent.EventType = PlayerExiled, EventTimeOffset = 20000000000,
                        Data = payload_exiled_alice\<rparr>]\<rparr>, [''Alice'']) \<and>
   events_loop unmarshal_sample (Some game_sample) (stats_init, [])
     ([ev_discuss, ev_exiled_alice] @ [ev_died_alice]) =
     Inr (stats_init\<lparr>NumMeetings := 1, NumDeaths := 1, NumVotedOff := 1,
            Events := [\<lparr>SimpleEvent.EventType = Discuss, EventTimeOffset = 10000000000, Data = []\<rparr>,
                       \<lparr>SimpleEvent.EventType = PlayerExiled, EventTimeOffset = 20000000000,
                        Data = payload_exiled_alice\<rparr>]\<rparr>, [''Alice'']) \<and>
   StatsFromGameAndEvents unmarshal_sample (Some game_sample)
     [ev_discuss, ev_exiled_alice, ev_died_alice] users_sample =
   Inr \<lparr>GameStartTime = Time_Unix 1000, GameEndTime = Time_Unix 1100,
        GameDuration = 100000000000, GameStatistics.WinType = 1, WinRole = CrewmateRole,
        WinPlayerNames = [''Bob''], LosePlayerNames = [''Alice''],
        NumMeetings = 1, NumDeaths = 1, NumVotedOff = 1, NumDisconnects = 0,
        Events = [\<lparr>SimpleEvent.EventType = Discuss, EventTimeOffset = 10000000000, Data = []\<rparr>,
                  \<lparr>SimpleEvent.EventType = PlayerExiled, EventTimeOffset = 20000000000,
                   Data = payload_exiled_alice\<rparr>]\<rparr>"
  using death_counter_and_timeline[of unmarshal_sample ev_died_alice game_sample stats_init "[]"
      "[ev_discuss, ev_exiled_alice]" "[ev_discuss, ev_exiled_alice, ev_died_alice]" users_sample]
  by (simp add: reducer_defs sample_defs reading_defs)

text \<open>
  Claim C2 says that the reducer never panics when there is no game. It does: with two
  phase events the scan reaches \<^verbatim>\<open>pgame.StartTime\<close> (line 328) through the nil pointer
  that line 298 guards against.
\<close>

theorem nil_game_panics:
  "StatsFromGameAndEvents um None [ev_discuss, ev_tasks] users = Inl NilPointerDereference"
  by (simp add: reducer_defs sample_defs)

text \<open>
  Claim C3. With fewer than two events the reducer returns at once, whatever the game
  (also none) and whatever the events hold: the timeline is empty, the four counters are
  0, and the winners and losers are those of the user rows.
\<close>

theorem short_event_stream:
  assumes "length events < 2"
  shows "\<exists>s. StatsFromGameAndEvents um pgame events users = Inr s \<and>
     Events s = [] \<and> NumMeetings s = 0 \<and> NumDeaths s = 0 \<and> NumVotedOff s = 0 \<and>
     NumDisconnects s = 0 \<and>
     WinPlayerNames s = map PlayerName (filter PlayerWon users) \<and>
     LosePlayerNames s = map PlayerName (filter (\<lambda>v. \<not> PlayerWon v) users)"
  by (simp add: Stats_short[OF assms] before_events_fields)

theorem short_event_stream_witness:
  "length [ev_died_alice] < 2 \<and>
   StatsFromGameAndEvents unmarshal_sample (Some game_sample) [ev_died_alice] users_sample =
     Inr \<lparr>GameStartTime = Time_Unix 1000, GameEndTime = Time_Unix 1100,
          GameDuration = 100000000000, GameStatistics.WinType = 1, WinRole = CrewmateRole,
          WinPlayerNames = [''Bob''], LosePlayerNames = [''Alice''],
          NumMeetings = 0, NumDeaths = 0, NumVotedOff = 0, NumDisconnects = 0, Events = []\<rparr>"
  using short_event_stream[of "[ev_died_alice]" unmarshal_sample "Some game_sample" users_sample]
  by (simp add: reducer_defs sample_defs)

text \<open>
  Claim C4. The reducer returns for every game, and whenever it returns the winner names
  are the names of the rows with the win flag and the loser names those of the rows
  without it, each in the order of the input; so every row contributes to exactly one of
  the two lists.
\<close>

theorem winners_losers_partition:
  "(\<exists>s. StatsFromGameAndEvents um (Some g) events users = Inr s) \<and>
   (\<forall>s. StatsFromGameAndEvents um pgame events users = Inr s \<longrightarrow>
      WinPlayerNames s = map PlayerName (filter PlayerWon users) \<and>
      LosePlayerNames s = map PlayerName (filter (\<lambda>v. \<not> PlayerWon v) users) \<and>
      length (WinPlayerNames s) + length (LosePlayerNames s) = length users)"
proof (intro conjI allI impI)
  show "\<exists>s. StatsFromGameAndEvents um (Some g) events users = Inr s" by (rule Stats_Some)
next
  fix s assume r: "StatsFromGameAndEvents um pgame events users = Inr s"
  show "WinPlayerNames s = map PlayerName (filter PlayerWon users)"
    using r by (rule Stats_names)
  show "LosePlayerNames s = map PlayerName (filter (\<lambda>v. \<not> PlayerWon v) users)"
    using r by (rule Stats_names)
  show "length (WinPlayerNames s) + length (LosePlayerNames s) = length users"
    by (simp add: Stats_names[OF r] sum_length_filter_compl)
qed

theorem winners_losers_partition_witness:
  "StatsFromGameAndEvents unmarshal_sample (Some game_sample)
     [ev_discuss, ev_exiled_alice, ev_died_alice] users_sample =
   Inr \<lparr>GameStartTime = Time_Unix 1000, GameEndTime = Time_Unix 1100,
        GameDuration = 100000000000, GameStatistics.WinType = 1, WinRole = CrewmateRole,
        WinPlayerNames = [''Bob''], LosePlayerNames = [''Alice''],
        NumMeetings = 1, NumDeaths = 1, NumVotedOff = 1, NumDisconnects = 0,
        Events = [\<lparr>SimpleEvent.EventType = Discuss, EventTimeOffset = 10000000000, Data = []\<rparr>,
                  \<lparr>SimpleEvent.EventType = PlayerExiled, EventTimeOffset = 20000000000,
                   Data = payload_exiled_alice\<rparr>]\<rparr> \<and>
   map PlayerName (filter PlayerWon users_sample) = [''Bob''] \<and>
   map PlayerName (filter (\<lambda>v. \<not> PlayerWon v) users_sample) = [''Alice'']"
  using winners_losers_partition[of unmarshal_sample game_sample
      "[ev_discuss, ev_exiled_alice, ev_died_alice]" users_sample "Some game_sample"]
  by (simp add: reducer_defs sample_defs)





text \<open>
  Claim C7. The reducer returns for every game; the codes 0, 1 and 6 give the Crewmate
  role, the codes 2, 3, 4 and 5 the Imposter role, and on the codes 0-6 the role is the
  one whose filter in \<^verbatim>\<open>NumGamesWonAsRoleOnServer\<close> the code passes. A win type Unknown
  gives the Crewmate role, also when there is no game.
\<close>

theorem win_role_of_code:
  "(\<exists>s. StatsFromGameAndEvents um (Some g) events users = Inr s \<and>
      (PostgresGame.WinType g \<in> {0, 1, 6} \<longrightarrow> WinRole s = CrewmateRole) \<and>
      (PostgresGame.WinType g \<in> {2, 3, 4, 5} \<longrightarrow> WinRole s = ImposterRole) \<and>
      (PostgresGame.WinType g \<in> {0, 1, 2, 3, 4, 5, 6} \<longrightarrow>
         (\<forall>role. win_type_filter role (PostgresGame.WinType g) \<longleftrightarrow> WinRole s = role))) \<and>
   (\<forall>s. StatsFromGameAndEvents um pgame events users = Inr s \<longrightarrow>
      GameStatistics.WinType s = Unknown \<longrightarrow> WinRole s = CrewmateRole) \<and>
   (\<forall>s. StatsFromGameAndEvents um None events users = Inr s \<longrightarrow>
      GameStatistics.WinType s = Unknown \<and> WinRole s = CrewmateRole)"
proof (intro conjI allI impI)
  obtain s where res: "StatsFromGameAndEvents um (Some g) events users = Inr s"
    using Stats_Some by blast
  have t: "GameStatistics.WinType s = PostgresGame.WinType g"
    using Stats_win(1)[OF res] by simp
  have r: "WinRole s = (if PostgresGame.WinType g \<in> {2, 3, 4, 5} then ImposterRole else CrewmateRole)"
    using Stats_win(2)[OF res] by (simp only: t)
  have a: "PostgresGame.WinType g \<in> {0, 1, 6} \<longrightarrow> WinRole s = CrewmateRole"
    using r by auto
  have b: "PostgresGame.WinType g \<in> {2, 3, 4, 5} \<longrightarrow> WinRole s = ImposterRole"
    using r by auto
  have c: "PostgresGame.WinType g \<in> {0, 1, 2, 3, 4, 5, 6} \<longrightarrow>
         (\<forall>role. win_type_filter role (PostgresGame.WinType g) \<longleftrightarrow> WinRole s = role)"
  proof (intro impI allI)
    fix role assume "PostgresGame.WinType g \<in> {0, 1, 2, 3, 4, 5, 6}"
    then show "win_type_filter role (PostgresGame.WinType g) \<longleftrightarrow> WinRole s = role"
      using r by (cases role) (auto simp: win_type_filter_def)
  qed
  from res a b c
  show "\<exists>s. StatsFromGameAndEvents um (Some g) events users = Inr s \<and>
      (PostgresGame.WinType g \<in> {0, 1, 6} \<longrightarrow> WinRole s = CrewmateRole) \<and>
      (PostgresGame.WinType g \<in> {2, 3, 4, 5} \<longrightarrow> WinRole s = ImposterRole) \<and>
      (PostgresGame.WinType g \<in> {0, 1, 2, 3, 4, 5, 6} \<longrightarrow>
         (\<forall>role. win_type_filter role (PostgresGame.WinType g) \<longleftrightarrow> WinRole s = role))"
    by blast
next
  fix s assume res: "StatsFromGameAndEvents um pgame events users = Inr s"
    and u: "GameStatistics.WinType s = Unknown"
  show "WinRole s = CrewmateRole"
    using Stats_win(2)[OF res] u by (simp add: Unknown_def)
next
  fix s assume res: "StatsFromGameAndEvents um None events users = Inr s"
  show "GameStatistics.WinType s = Unknown" using Stats_win(1)[OF res] by simp
  then show "WinRole s = CrewmateRole" using Stats_win(2)[OF res] by (simp add: Unknown_def)
qed

theorem win_role_of_code_witness:
  "PostgresGame.WinType game_sample \<in> {0, 1, 6} \<and>
   StatsFromGameAndEvents unmarshal_sample (Some game_sample) [] [] =
     Inr (stats_init\<lparr>GameStartTime := Time_Unix 1000, GameEndTime := Time_Unix 1100,
            GameDuration := 100000000000, GameStatistics.WinType := 1\<rparr>) \<and>
   WinRole (stats_init\<lparr>GameStartTime := Time_Unix 1000, GameEndTime := Time_Unix 1100,
            GameDuration := 100000000000, GameStatistics.WinType := 1\<rparr>) = CrewmateRole \<and>
   win_type_filter CrewmateRole 1 \<and>
   PostgresGame.WinType (game_sample\<lparr>PostgresGame.WinType := 3\<rparr>) \<in> {2, 3, 4, 5} \<and>
   StatsFromGameAndEvents unmarshal_sample (Some (game_sample\<lparr>PostgresGame.WinType := 3\<rparr>)) [] [] =
     Inr (stats_init\<lparr>GameStartTime := Time_Unix 1000, GameEndTime := Time_Unix 1100,
            GameDuration := 100000000000, GameStatistics.WinType := 3,
            WinRole := ImposterRole\<rparr>) \<and>
   win_type_filter ImposterRole 3 \<and>
   StatsFromGameAndEvents unmarshal_sample None [] [] = Inr stats_init \<and>
   GameStatistics.WinType stats_init = Unknown \<and> WinRole stats_init = CrewmateRole"
proof -
  let ?g3 = "game_sample\<lparr>PostgresGame.WinType := 3\<rparr>"
  let ?s1 = "stats_init\<lparr>GameStartTime := Time_Unix 1000, GameEndTime := Time_Unix 1100,
            GameDuration := 100000000000, GameStatistics.WinType := 1\<rparr>"
  let ?s3 = "stats_init\<lparr>GameStartTime := Time_Unix 1000, GameEndTime := Time_Unix 1100,
            GameDuration := 100000000000, GameStatistics.WinType := 3,
            WinRole := ImposterRole\<rparr>"
  have code1: "PostgresGame.WinType game_sample \<in> {0, 1, 6}"
    and code1': "PostgresGame.WinType game_sample \<in> {0, 1, 2, 3, 4, 5, 6}"
    and v1: "PostgresGame.WinType game_sample = 1"
    by (simp_all add: game_sample_def)
  have code3: "PostgresGame.WinType ?g3 \<in> {2, 3, 4, 5}"
    and code3': "PostgresGame.WinType ?g3 \<in> {0, 1, 2, 3, 4, 5, 6}"
    and v3: "PostgresGame.WinType ?g3 = 3"
    by simp_all
  have run1: "StatsFromGameAndEvents unmarshal_sample (Some game_sample) [] [] = Inr ?s1"
    by (simp add: reducer_defs sample_defs)
  have run3: "StatsFromGameAndEvents unmarshal_sample (Some ?g3) [] [] = Inr ?s3"
    by (simp add: reducer_defs sample_defs)
  have run0: "StatsFromGameAndEvents unmarshal_sample None [] [] = Inr stats_init"
    by (simp add: reducer_defs)
  note inst1 = win_role_of_code[of unmarshal_sample game_sample "[]" "[]" None]
  note inst3 = win_role_of_code[of unmarshal_sample ?g3 "[]" "[]" None]
  from inst1 obtain s where "StatsFromGameAndEvents unmarshal_sample (Some game_sample) [] [] = Inr s"
    and "PostgresGame.WinType game_sample \<in> {0, 1, 6} \<longrightarrow> WinRole s = CrewmateRole"
    and "PostgresGame.WinType game_sample \<in> {0, 1, 2, 3, 4, 5, 6} \<longrightarrow>
         (\<forall>role. win_type_filter role (PostgresGame.WinType game_sample) \<longleftrightarrow> WinRole s = role)"
    by blast
  with run1 code1 code1' have crew: "WinRole ?s1 = CrewmateRole"
    and f1: "win_type_filter CrewmateRole (PostgresGame.WinType game_sample)"
    by simp_all
  from inst3 obtain s where "StatsFromGameAndEvents unmarshal_sample (Some ?g3) [] [] = Inr s"
    and "PostgresGame.WinType ?g3 \<in> {0, 1, 2, 3, 4, 5, 6} \<longrightarrow>
         (\<forall>role. win_type_filter role (PostgresGame.WinType ?g3) \<longleftrightarrow> WinRole s = role)"
    by blast
  with run3 code3' have f3: "win_type_filter ImposterRole (PostgresGame.WinType ?g3)"
    by simp
  from inst1 run0 have nil: "GameStatistics.WinType stats_init = Unknown \<and> WinRole stats_init = CrewmateRole"
    by blast
  from code1 run1 crew f1[unfolded v1] code3 run3 f3[unfolded v3] run0 nil show ?thesis by blast
qed

text \<open>
  Claim C8 as stated fails: line 302 converts the code of the game and keeps its value,
  so the code 8 is recorded as the win type 8, which is not Unknown.
\<close>

theorem win_type_out_of_range_counterexample:
  "PostgresGame.WinType (game_sample\<lparr>PostgresGame.WinType := 8\<rparr>) = 8 \<and>
   \<not> (0 \<le> (8 :: int) \<and> (8 :: int) \<le> 6) \<and>
   StatsFromGameAndEvents unmarshal_sample (Some (game_sample\<lparr>PostgresGame.WinType := 8\<rparr>)) [] [] =
     Inr (stats_init\<lparr>GameStartTime := Time_Unix 1000, GameEndTime := Time_Unix 1100,
            GameDuration := 100000000000, GameStatistics.WinType := 8\<rparr>) \<and>
   GameStatistics.WinType (stats_init\<lparr>GameStartTime := Time_Unix 1000, GameEndTime := Time_Unix 1100,
            GameDuration := 100000000000, GameStatistics.WinType := 8\<rparr>) \<noteq> Unknown"
  by (simp add: reducer_defs sample_defs)

text \<open>
  Claim C8, amended. The win type recorded is the code of the game itself, whatever its
  range; it is Unknown exactly when the code is the one of Unknown.
\<close>

theorem win_type_is_the_code:
  "\<exists>s. StatsFromGameAndEvents um (Some g) events users = Inr s \<and>
     GameStatistics.WinType s = PostgresGame.WinType g \<and>
     (GameStatistics.WinType s = Unknown \<longleftrightarrow> PostgresGame.WinType g = Unknown)"
proof -
  obtain s where res: "StatsFromGameAndEvents um (Some g) events users = Inr s"
    using Stats_Some by blast
  have "GameStatistics.WinType s = PostgresGame.WinType g"
    using Stats_win(1)[OF res] by simp
  with res show ?thesis by simp
qed

text \<open>
  Claim C9. Whatever the minimum, the table and the outcome of the scan, no row returned
  by either ranking has a total below \<open>leaderboardMin\<close>, and the rows come in the order
  of the three keys: rate, then count, then total, each descending.
\<close>

theorem teammate_rankings:
  "(\<forall>r \<in> set (BestTeammateByRole dd failure tbl userID guildID role leaderboardMin).
      leaderboardMin \<le> Total r) \<and>
   sorted_wrt ranks_before (BestTeammateByRole dd failure tbl userID guildID role leaderboardMin) \<and>
   (\<forall>r \<in> set (WorstTeammateByRole dd failure tbl userID guildID role leaderboardMin).
      leaderboardMin \<le> Total r) \<and>
   sorted_wrt ranks_before (WorstTeammateByRole dd failure tbl userID guildID role leaderboardMin)"
proof (intro conjI ballI)
  fix r assume "r \<in> set (BestTeammateByRole dd failure tbl userID guildID role leaderboardMin)"
  then have "r \<in> set (teammate_query True dd tbl guildID role userID leaderboardMin)"
    unfolding BestTeammateByRole_def by (rule select_set)
  then show "leaderboardMin \<le> Total r" by (rule query_having)
next
  fix r assume "r \<in> set (WorstTeammateByRole dd failure tbl userID guildID role leaderboardMin)"
  then have "r \<in> set (teammate_query False dd tbl guildID role userID leaderboardMin)"
    unfolding WorstTeammateByRole_def by (rule select_set)
  then show "leaderboardMin \<le> Total r" by (rule query_having)
next
  show "sorted_wrt ranks_before (BestTeammateByRole dd failure tbl userID guildID role leaderboardMin)"
    unfolding BestTeammateByRole_def teammate_query_def Let_def
    by (rule select_sorted) (rule sorted_wrt_ranks)
next
  show "sorted_wrt ranks_before (WorstTeammateByRole dd failure tbl userID guildID role leaderboardMin)"
    unfolding WorstTeammateByRole_def teammate_query_def Let_def
    by (rule select_sorted) (rule sorted_wrt_ranks)
qed

theorem teammate_rankings_witness:
  "BestTeammateByRole exact_div None users_games_sample 1 9 0 2 =
     [\<lparr>RankUserID = 1, TeammateID = 3, Total = 2, Count = 2, Rate = 100\<rparr>,
      \<lparr>RankUserID = 1, TeammateID = 2, Total = 2, Count = 1, Rate = 50\<rparr>] \<and>
   WorstTeammateByRole exact_div None users_games_sample 1 9 0 2 =
     [\<lparr>RankUserID = 1, TeammateID = 2, Total = 2, Count = 1, Rate = 50\<rparr>,
      \<lparr>RankUserID = 1, TeammateID = 3, Total = 2, Count = 0, Rate = 0\<rparr>] \<and>
   2 \<le> Total \<lparr>RankUserID = 1, TeammateID = 3, Total = 2, Count = 2, Rate = 100\<rparr> \<and>
   2 \<le> Total \<lparr>RankUserID = 1, TeammateID = 2, Total = 2, Count = 1, Rate = 50\<rparr> \<and>
   2 \<le> Total \<lparr>RankUserID = 1, TeammateID = 3, Total = 2, Count = 0, Rate = 0\<rparr> \<and>
   ranks_before \<lparr>RankUserID = 1, TeammateID = 3, Total = 2, Count = 2, Rate = 100\<rparr>
                \<lparr>RankUserID = 1, TeammateID = 2, Total = 2, Count = 1, Rate = 50\<rparr> \<and>
   ranks_before \<lparr>RankUserID = 1, TeammateID = 2, Total = 2, Count = 1, Rate = 50\<rparr>
                \<lparr>RankUserID = 1, TeammateID = 3, Total = 2, Count = 0, Rate = 0\<rparr>"
proof -
  have best: "BestTeammateByRole exact_div None users_games_sample 1 9 0 2 =
     [\<lparr>RankUserID = 1, TeammateID = 3, Total = 2, Count = 2, Rate = 100\<rparr>,
      \<lparr>RankUserID = 1, TeammateID = 2, Total = 2, Count = 1, Rate = 50\<rparr>]"
    by (simp add: ranking_defs users_games_sample_def)
  have worst: "WorstTeammateByRole exact_div None users_games_sample 1 9 0 2 =
     [\<lparr>RankUserID = 1, TeammateID = 2, Total = 2, Count = 1, Rate = 50\<rparr>,
      \<lparr>RankUserID = 1, TeammateID = 3, Total = 2, Count = 0, Rate = 0\<rparr>]"
    by (simp add: ranking_defs users_games_sample_def)
  note inst = teammate_rankings[of exact_div None users_games_sample 1 9 0 2]
  from inst have b: "sorted_wrt ranks_before (BestTeammateByRole exact_div None users_games_sample 1 9 0 2)"
    and w: "sorted_wrt ranks_before (WorstTeammateByRole exact_div None users_games_sample 1 9 0 2)"
    by blast+
  from b have rb: "ranks_before \<lparr>RankUserID = 1, TeammateID = 3, Total = 2, Count = 2, Rate = 100\<rparr>
                \<lparr>RankUserID = 1, TeammateID = 2, Total = 2, Count = 1, Rate = 50\<rparr>"
    unfolding best by simp
  from w have rw: "ranks_before \<lparr>RankUserID = 1, TeammateID = 2, Total = 2, Count = 1, Rate = 50\<rparr>
                \<lparr>RankUserID = 1, TeammateID = 3, Total = 2, Count = 0, Rate = 0\<rparr>"
    unfolding worst by simp
  from inst have "\<forall>r \<in> set (BestTeammateByRole exact_div None users_games_sample 1 9 0 2).
      2 \<le> Total r"
    and "\<forall>r \<in> set (WorstTeammateByRole exact_div None users_games_sample 1 9 0 2).
      2 \<le> Total r"
    by blast+
  then have "2 \<le> Total \<lparr>RankUserID = 1, TeammateID = 3, Total = 2, Count = 2, Rate = 100\<rparr>"
    and "2 \<le> Total \<lparr>RankUserID = 1, TeammateID = 2, Total = 2, Count = 1, Rate = 50\<rparr>"
    and "2 \<le> Total \<lparr>RankUserID = 1, TeammateID = 3, Total = 2, Count = 0, Rate = 0\<rparr>"
    unfolding best worst by simp_all
  with best worst rb rw show ?thesis by blast
qed

text \<open>
  Claim C10. After any events \<open>vs\<close> the list of exiled names the loop holds is the one
  it started with followed by the names of the Exiled actions of \<open>vs\<close>; a Died or a
  Disconnected action adds none. So in a sequence of at least two events, a Died action
  whose player no earlier Exiled action names appends its PlayerDeath entry, right after
  the entries of the events before it: neither an earlier death nor an earlier
  disconnection of that player suppresses it.
\<close>

theorem only_exiled_is_remembered:
  "(\<exists>s'. events_loop um (Some g) (s0, ex0) vs = Inr (s', ex0 @ exiled_names um vs)) \<and>
   (is_action um DIED v \<or> is_action um DISCONNECTED v \<longrightarrow>
      exiled_names um (pre @ [v]) = exiled_names um pre) \<and>
   (2 \<le> length (pre @ v # post) \<and> is_action um DIED v \<and>
    action_name um v \<notin> set (exiled_names um pre) \<longrightarrow>
      (\<exists>s s1 rest.
         StatsFromGameAndEvents um (Some g) (pre @ v # post) users = Inr s \<and>
         events_loop um (Some g) (stats_before_events (Some g) users, []) pre =
           Inr (s1, exiled_names um pre) \<and>
         Events s = Events s1 @ [\<lparr>SimpleEvent.EventType = PlayerDeath,
                       EventTimeOffset = time_Second * (EventTime v - StartTime g),
                       Data = Payload v\<rparr>] @ rest))"
proof (intro conjI impI)
  show "\<exists>s'. events_loop um (Some g) (s0, ex0) vs = Inr (s', ex0 @ exiled_names um vs)"
    by (rule events_loop_Some_exiled)
next
  assume "is_action um DIED v \<or> is_action um DISCONNECTED v"
  then show "exiled_names um (pre @ [v]) = exiled_names um pre"
  proof
    assume "is_action um DIED v"
    then show ?thesis using consts_distinct(1) by (rule exiled_names_snoc_other)
  next
    assume "is_action um DISCONNECTED v"
    then show ?thesis using consts_distinct(3)[symmetric] by (rule exiled_names_snoc_other)
  qed
next
  assume "2 \<le> length (pre @ v # post) \<and> is_action um DIED v \<and>
    action_name um v \<notin> set (exiled_names um pre)"
  then show "\<exists>s s1 rest.
         StatsFromGameAndEvents um (Some g) (pre @ v # post) users = Inr s \<and>
         events_loop um (Some g) (stats_before_events (Some g) users, []) pre =
           Inr (s1, exiled_names um pre) \<and>
         Events s = Events s1 @ [\<lparr>SimpleEvent.EventType = PlayerDeath,
                       EventTimeOffset = time_Second * (EventTime v - StartTime g),
                       Data = Payload v\<rparr>] @ rest"
    using died_entry_kept[of pre v post um g users] by blast
qed

theorem only_exiled_is_remembered_witness:
  "is_action unmarshal_sample DIED (ev_died_alice\<lparr>EventTime := 1040\<rparr>) \<and>
   2 \<le> length ([ev_died_alice, ev_disconnected_alice] @ ev_died_alice\<lparr>EventTime := 1040\<rparr> # []) \<and>
   action_name unmarshal_sample (ev_died_alice\<lparr>EventTime := 1040\<rparr>)
     \<notin> set (exiled_names unmarshal_sample [ev_died_alice, ev_disconnected_alice]) \<and>
   StatsFromGameAndEvents unmarshal_sample (Some game_sample)
     ([ev_died_alice, ev_disconnected_alice] @ ev_died_alice\<lparr>EventTime := 1040\<rparr> # []) users_sample =
   Inr \<lparr>GameStartTime = Time_Unix 1000, GameEndTime = Time_Unix 1100,
        GameDuration = 100000000000, GameStatistics.WinType = 1, WinRole = CrewmateRole,
        WinPlayerNames = [''Bob''], LosePlayerNames = [''Alice''],
        NumMeetings = 0, NumDeaths = 2, NumVotedOff = 0, NumDisconnects = 1,
        Events = [\<lparr>SimpleEvent.EventType = PlayerDeath, EventTimeOffset = 30000000000,
                   Data = payload_died_alice\<rparr>,
                  \<lparr>SimpleEvent.EventType = PlayerDisconnect, EventTimeOffset = 25000000000,
                   Data = payload_disconnected_alice\<rparr>,
                  \<lparr>SimpleEvent.EventType = PlayerDeath, EventTimeOffset = 40000000000,
                   Data = payload_died_alice\<rparr>]\<rparr>"
  using only_exiled_is_remembered[of unmarshal_sample game_sample stats_init "[]"
      "[ev_died_alice, ev_disconnected_alice]" "ev_died_alice\<lparr>EventTime := 1040\<rparr>"
      "[ev_died_alice, ev_disconnected_alice]" "[]" users_sample]
  by (simp add: reducer_defs sample_defs reading_defs)

end
